theory Spec2Isabelle
  imports Main "HOL-Library.Sublist"
begin

section \<open>Regular expressions of \<open>vm/constants.py\<close>\<close>

text \<open>
  The two patterns of \<open>constants.py\<close> are built from word boundaries, character classes,
  bounded greedy repetition and concatenation. They are embedded as a small syntax tree
  with the backtracking semantics of Python's \<open>re\<close> module: the matcher returns the end
  positions of all ways to match at a start position, in the order in which the
  backtracking engine tries them, so that the head of the list is the match \<open>re\<close> reports.
  Notes are ASCII text here; for ASCII, \<open>\d\<close> is \<open>[0-9]\<close> and \<open>\w\<close> is \<open>[A-Za-z0-9_]\<close>.
\<close>

datatype cls = Digit | Word | OneOf string

datatype rx = Bnd | Chr cls | Rep nat nat rx | Seq rx rx

definition is_digit :: "char \<Rightarrow> bool" where
  "is_digit c = (c \<in> set ''0123456789'')"

definition is_word :: "char \<Rightarrow> bool" where
  "is_word c = (c \<in> set ''abcdefghijklmnopqrstuvwxyzABCDEFGHIJKLMNOPQRSTUVWXYZ0123456789_'')"

definition lower :: "char \<Rightarrow> char" where
  "lower c = (case map_of (zip ''ABCDEFGHIJKLMNOPQRSTUVWXYZ'' ''abcdefghijklmnopqrstuvwxyz'') c of
                None \<Rightarrow> c | Some l \<Rightarrow> l)"

text \<open>\<open>in_cls ic k c\<close>: character \<open>c\<close> is in class \<open>k\<close>; \<open>ic\<close> is the flag \<open>re.IGNORECASE\<close>.\<close>

fun in_cls :: "bool \<Rightarrow> cls \<Rightarrow> char \<Rightarrow> bool" where
  "in_cls ic Digit c = is_digit c"
| "in_cls ic Word c = is_word c"
| "in_cls ic (OneOf cs) c = (if ic then lower c \<in> lower ` set cs else c \<in> set cs)"

text \<open>\<open>\b\<close>: exactly one of the characters before and after position \<open>i\<close> is a word
  character; outside the string there is none.\<close>

definition word_before :: "string \<Rightarrow> nat \<Rightarrow> bool" where
  "word_before s i = (0 < i \<and> i \<le> length s \<and> is_word (s ! (i - 1)))"

definition word_after :: "string \<Rightarrow> nat \<Rightarrow> bool" where
  "word_after s i = (i < length s \<and> is_word (s ! i))"

definition at_boundary :: "string \<Rightarrow> nat \<Rightarrow> bool" where
  "at_boundary s i = (word_before s i \<noteq> word_after s i)"

text \<open>Greedy \<open>r{lo,hi}\<close>: one more copy of \<open>r\<close> is tried first, stopping here is the
  fallback once \<open>lo\<close> copies are done.\<close>

fun repeat :: "(nat \<Rightarrow> nat list) \<Rightarrow> nat \<Rightarrow> nat \<Rightarrow> nat \<Rightarrow> nat list" where
  "repeat f lo 0 i = (if lo = 0 then [i] else [])"
| "repeat f lo (Suc hi) i =
     concat (map (repeat f (lo - 1) hi) (f i)) @ (if lo = 0 then [i] else [])"

primrec ends :: "bool \<Rightarrow> rx \<Rightarrow> string \<Rightarrow> nat \<Rightarrow> nat list" where
  "ends ic Bnd s i = (if at_boundary s i then [i] else [])"
| "ends ic (Chr k) s i = (if i < length s \<and> in_cls ic k (s ! i) then [Suc i] else [])"
| "ends ic (Rep lo hi r) s i = repeat (ends ic r s) lo hi i"
| "ends ic (Seq a b) s i = concat (map (ends ic b s) (ends ic a s i))"

text \<open>
  \<open>re.findall\<close>: scan from the left; at each position take the first match if there is
  one, report the matched substring (neither pattern has a capturing group) and go on
  behind it; otherwise move one character on. An empty match would advance by one
  character; the patterns here never match the empty string.
\<close>

function findall_from :: "bool \<Rightarrow> rx \<Rightarrow> string \<Rightarrow> nat \<Rightarrow> string list" where
  "findall_from ic r s i =
     (if length s < i then []
      else case ends ic r s i of
             [] \<Rightarrow> findall_from ic r s (Suc i)
           | j # _ \<Rightarrow> take (j - i) (drop i s) # findall_from ic r s (max j (Suc i)))"
  by pat_completeness auto
termination
  by (relation "measure (\<lambda>(ic, r, s, i). Suc (length s) - i)") auto

declare findall_from.simps [simp del]

definition findall :: "rx \<Rightarrow> bool \<Rightarrow> string \<Rightarrow> string list" where
  "findall r ic s = findall_from ic r s 0"

text \<open>\<open>PNR_REGEX = r"\b[XB][XB]\w{6}\b"\<close>\<close>

definition PNR_REGEX :: rx where
  "PNR_REGEX =
     Seq Bnd (Seq (Chr (OneOf ''XB'')) (Seq (Chr (OneOf ''XB'')) (Seq (Rep 6 6 (Chr Word)) Bnd)))"

text \<open>\<open>SCADENZA_REGEX = r"\b\d{1,2}[./-]\d{1,2}(?:[./-]\d{2,4})?\b"\<close>\<close>

definition SCADENZA_REGEX :: rx where
  "SCADENZA_REGEX =
     Seq Bnd (Seq (Rep 1 2 (Chr Digit)) (Seq (Chr (OneOf ''./-'')) (Seq (Rep 1 2 (Chr Digit))
       (Seq (Rep 0 1 (Seq (Chr (OneOf ''./-'')) (Rep 2 4 (Chr Digit)))) Bnd))))"


section \<open>Data frames, errors and the log\<close>

text \<open>
  A pandas data frame is its list of column labels and its list of rows. A row carries its
  index label \<open>idx\<close> and the cells of the columns the pipeline reads or writes, under the
  names the pipeline uses for them. A missing cell (\<open>NaN\<close>, \<open>NaT\<close>) is \<open>None\<close>.
  \<open>Data_Di_Nascita\<close> is a \<open>datetime64[ns]\<close> cell: nanoseconds since 1970-01-01.
  Raised exceptions are values of type \<open>error\<close>; the calls of \<open>logger\<close> are collected
  as a list of entries.
\<close>

datatype error = KeyError string | ValueError string | ParserError string

datatype level = DEBUG | WARNING | ERROR

datatype message =
    Excel_read nat
  | Minors_dropped int
  | No_minor
  | Wrong_insurance_dropped int
  | Lost_because_of_ESAME int
  | Lost_because_of_Scadenza int
  | Need_second_pnr nat

type_synonym log = "(level \<times> message) list"

datatype label = IntLabel nat | StrLabel string

datatype datetime = Datetime int int int

record row =
  idx :: nat
  Data_Di_Nascita :: "int option"
  Descrizione_BusinessPartner :: string
  Istituto :: int
  Esame :: string
  Note :: "string option"
  age :: "int option"
  PNR :: "string list option"
  second_pnr :: bool
  Codice_Esame_SAP :: "string option"
  ID_prestazioni :: "int option"
  type_prestazioni :: "string option"
  scad :: "datetime option"

record frame =
  columns :: "label list"
  rows :: "row list"

text \<open>A row of the sheet \<open>Codice\<close> of the category workbook: the two columns the join
  uses and the cells of its other columns.\<close>

record cat_row =
  cat_Codice_Esame_SAP :: string
  cat_ID_prestazioni :: int
  cat_other_columns :: "string list"

definition has_column :: "frame \<Rightarrow> string \<Rightarrow> bool" where
  "has_column df c = (StrLabel c \<in> set (columns df))"

text \<open>\<open>df[c] = ...\<close>: the column is appended when the frame has none of that name.\<close>

definition set_column :: "string \<Rightarrow> (row \<Rightarrow> row) \<Rightarrow> frame \<Rightarrow> frame" where
  "set_column c f df =
     \<lparr>columns = (if has_column df c then columns df else columns df @ [StrLabel c]),
      rows = map f (rows df)\<rparr>"

text \<open>A series is a list of cells with their index labels. \<open>dropna\<close> removes the missing
  cells; assigning a series to a column looks each row's label up in the series.\<close>

definition series :: "(row \<Rightarrow> 'a) \<Rightarrow> frame \<Rightarrow> (nat \<times> 'a) list" where
  "series f df = map (\<lambda>r. (idx r, f r)) (rows df)"

definition dropna :: "(nat \<times> 'a option) list \<Rightarrow> (nat \<times> 'a) list" where
  "dropna ser = concat (map (\<lambda>(i, v). case v of None \<Rightarrow> [] | Some x \<Rightarrow> [(i, x)]) ser)"

definition reset_index :: "row list \<Rightarrow> row list" where
  "reset_index rs = map (\<lambda>(i, r). r\<lparr>idx := i\<rparr>) (zip [0..<length rs] rs)"

section \<open>Filter stages\<close>

text \<open>
  \<open>(pd.Timestamp("now") - df["Data_Di_Nascita"]).astype("<m8[Y]")\<close>: the difference in
  nanoseconds is cast to the unit \<open>Y\<close>, which numpy takes as 146097/400 days, that is
  31556952 seconds, dividing with rounding towards minus infinity; \<open>NaT\<close> gives \<open>NaN\<close>.
\<close>

definition NS_PER_YEAR :: int where
  "NS_PER_YEAR = 31556952 * 1000000000"

definition years_m8 :: "int \<Rightarrow> int option \<Rightarrow> int option" where
  "years_m8 now birth = map_option (\<lambda>b. (now - b) div NS_PER_YEAR) birth"

definition is_adult :: "row \<Rightarrow> bool" where
  "is_adult r = (case age r of None \<Rightarrow> False | Some a \<Rightarrow> 18 \<le> a)"

definition filter_minor_from_df :: "int \<Rightarrow> frame \<Rightarrow> error + frame \<times> log" where
  "filter_minor_from_df now df_patients =
     (let nb_patient_before = int (length (rows df_patients)) in
      if \<not> has_column df_patients ''Data_Di_Nascita'' then Inl (KeyError ''Data_Di_Nascita'')
      else
        let df_age = set_column ''age''
                       (\<lambda>r. r\<lparr>age := years_m8 now (Data_Di_Nascita r)\<rparr>) df_patients;
            result = df_age\<lparr>rows := filter is_adult (rows df_age)\<rparr>;
            nb_patient_after = int (length (rows result));
            nb_minor = nb_patient_before - nb_patient_after
        in Inr (result, [(DEBUG, if nb_minor > 0 then Minors_dropped nb_minor else No_minor)]))"

text \<open>The count after filtering is taken from \<open>df_patients\<close>, as in the source.\<close>

definition filter_accepted_insurances :: "frame \<Rightarrow> string list \<Rightarrow> error + frame \<times> log" where
  "filter_accepted_insurances df_patients accepted_insurances =
     (let nb_patient_before = int (length (rows df_patients)) in
      if \<not> has_column df_patients ''Descrizione_BusinessPartner''
      then Inl (KeyError ''Descrizione_BusinessPartner'')
      else
        let result = df_patients\<lparr>rows :=
                       filter (\<lambda>r. Descrizione_BusinessPartner r \<in> set accepted_insurances)
                         (rows df_patients)\<rparr>;
            nb_patient_after = int (length (rows df_patients))
        in Inr (result,
                if nb_patient_before \<noteq> nb_patient_after
                then [(WARNING, Wrong_insurance_dropped (nb_patient_before - nb_patient_after))]
                else []))"

section \<open>Enrichment stages\<close>

text \<open>
  \<open>add_pnr_to_df\<close>: the notes without the missing ones are searched for all matches of
  \<open>PNR_REGEX\<close>, ignoring case; the result is assigned by index label, which leaves the rows
  without notes missing; these are then set to the empty list.
\<close>

definition add_pnr_to_df :: "frame \<Rightarrow> error + frame \<times> log" where
  "add_pnr_to_df df_patients =
     (let nb_patient_before = int (length (rows df_patients)) in
      if \<not> has_column df_patients ''Note'' then Inl (KeyError ''Note'')
      else
        let pnr = dropna (series Note df_patients);
            found = map (\<lambda>(i, s). (i, findall PNR_REGEX True s)) pnr;
            df_pnr = set_column ''PNR'' (\<lambda>r. r\<lparr>PNR := map_of found (idx r)\<rparr>) df_patients;
            df_filled = df_pnr\<lparr>rows :=
                          map (\<lambda>r. if PNR r = None then r\<lparr>PNR := Some []\<rparr> else r) (rows df_pnr)\<rparr>;
            nb_patient_after = int (length (rows df_filled))
        in Inr (df_filled,
                if nb_patient_before \<noteq> nb_patient_after
                then [(ERROR, Lost_because_of_ESAME (nb_patient_before - nb_patient_after))]
                else []))"

text \<open>
  \<open>add_check_2nd_pnr\<close>; the two lists are the columns \<open>Prestazione\<close> of the sheets \<open>OSR\<close>
  and \<open>SRT\<close>. \<open>df.loc[labels, "second_pnr"] = True\<close> sets the rows carrying one of the labels.
\<close>

definition loc_set_second_pnr :: "nat list \<Rightarrow> frame \<Rightarrow> frame" where
  "loc_set_second_pnr labels df =
     df\<lparr>rows := map (\<lambda>r. if idx r \<in> set labels then r\<lparr>second_pnr := True\<rparr> else r) (rows df)\<rparr>"

definition add_check_2nd_pnr :: "frame \<Rightarrow> string list \<Rightarrow> string list \<Rightarrow> error + frame \<times> log" where
  "add_check_2nd_pnr df_patients list_2nd_pnr_osr list_2nd_pnr_srt =
     (let df0 = set_column ''second_pnr'' (\<lambda>r. r\<lparr>second_pnr := False\<rparr>) df_patients in
      if \<not> has_column df0 ''Istituto'' then Inl (KeyError ''Istituto'')
      else
        let filtered_osr = filter (\<lambda>r. Istituto r = 1) (rows df0);
            filtered_srt = filter (\<lambda>r. Istituto r = 8) (rows df0)
        in if \<not> has_column df0 ''Esame'' then Inl (KeyError ''Esame'')
           else
             let df1 = loc_set_second_pnr
                         (map idx (filter (\<lambda>r. Esame r \<in> set list_2nd_pnr_osr) filtered_osr)) df0;
                 df2 = loc_set_second_pnr
                         (map idx (filter (\<lambda>r. Esame r \<in> set list_2nd_pnr_srt) filtered_srt)) df1;
                 nb_second_pnr = length (filter second_pnr (rows df2))
             in Inr (df2, [(DEBUG, Need_second_pnr nb_second_pnr)]))"

text \<open>\<open>DICT_PRESTAZIONNE\<close>\<close>

definition DICT_PRESTAZIONNE :: "int \<rightharpoonup> string" where
  "DICT_PRESTAZIONNE = map_of
     [(1, ''ALTRE PRESTAZIONI O NESSUNA DELL'' @ [CHR 0x27] @ ''ELENCO''),
      (2, ''Visite specialistiche''),
      (3, ''Prestazioni di fisioterapia (MAX 500E/ANNO)''),
      (4, ''Chirurgia dermatologica''),
      (5, ''Visite specialistiche in gravidanza (assistito)''),
      (6, ''Ecografie in gravidanza''),
      (7, ''Visite specialistiche pediatriche (tutela del figlio)''),
      (8, ''Prevenzione''),
      (9, ''Fisioterapia oltre 500E SOLO PER CONDIZIONI SPECIALI''),
      (10, ''Visite specialistiche (tutela del figlio, non pediatriche)'')]"

text \<open>\<open>drop_duplicates\<close> keeps the first of equal rows.\<close>

fun drop_duplicates :: "'a list \<Rightarrow> 'a list" where
  "drop_duplicates [] = []"
| "drop_duplicates (x # xs) = x # drop_duplicates (filter (\<lambda>y. y \<noteq> x) xs)"

text \<open>
  \<open>pd.merge(df_patients, join_right, left_on="Esame", right_on="Codice Esame SAP",
  how="left")\<close>: the left rows in their order, each once for every right row with its key,
  in the order of the right rows, or once with missing cells when there is none; the
  result has a fresh index.
\<close>

definition merge_row :: "(string \<times> int) list \<Rightarrow> row \<Rightarrow> row list" where
  "merge_row join_right r =
     (case filter (\<lambda>(k, v). k = Esame r) join_right of
        [] \<Rightarrow> [r\<lparr>Codice_Esame_SAP := None, ID_prestazioni := None\<rparr>]
      | ms \<Rightarrow> map (\<lambda>(k, v). r\<lparr>Codice_Esame_SAP := Some k, ID_prestazioni := Some v\<rparr>) ms)"

definition merge_left :: "frame \<Rightarrow> (string \<times> int) list \<Rightarrow> frame" where
  "merge_left df join_right =
     \<lparr>columns = columns df @ [StrLabel ''Codice Esame SAP'', StrLabel ''ID prestazioni''],
      rows = reset_index (concat (map (merge_row join_right) (rows df)))\<rparr>"

definition add_cat_code :: "frame \<Rightarrow> cat_row list \<Rightarrow> error + frame \<times> log" where
  "add_cat_code df_patients sheet_Codice =
     (let nb_patient_before = int (length (rows df_patients));
          df_cat_code = drop_duplicates sheet_Codice;
          join_right = map (\<lambda>c. (cat_Codice_Esame_SAP c, cat_ID_prestazioni c)) df_cat_code
      in if \<not> has_column df_patients ''Esame'' then Inl (KeyError ''Esame'')
         else
           let joined0 = merge_left df_patients join_right;
               joined = set_column ''type_prestazioni''
                          (\<lambda>r. r\<lparr>type_prestazioni :=
                                   (case ID_prestazioni r of None \<Rightarrow> None
                                    | Some i \<Rightarrow> DICT_PRESTAZIONNE i)\<rparr>) joined0;
               nb_patient_after = int (length (rows joined))
           in Inr (joined,
                   if nb_patient_before \<noteq> nb_patient_after
                   then [(ERROR, Lost_because_of_ESAME (nb_patient_before - nb_patient_after))]
                   else []))"

text \<open>
  \<open>extract_scadenza_from_df\<close>; \<open>parse\<close> stands for
  \<open>dateutil.parser.parse(_, dayfirst=True)\<close>, a function of the library \<open>dateutil\<close>, which
  returns a date or raises. \<open>apply\<close> calls it on the first match of each row that has one,
  in the order of the rows, and the first exception ends the stage.
\<close>

fun apply_parse ::
  "(string \<Rightarrow> error + datetime) \<Rightarrow> (nat \<times> string) list \<Rightarrow> error + (nat \<times> datetime) list" where
  "apply_parse parse [] = Inr []"
| "apply_parse parse ((i, s) # ser) =
     (case parse s of
        Inl e \<Rightarrow> Inl e
      | Inr d \<Rightarrow> (case apply_parse parse ser of Inl e \<Rightarrow> Inl e | Inr ds \<Rightarrow> Inr ((i, d) # ds)))"

definition str0 :: "string list \<Rightarrow> string option" where
  "str0 ms = (case ms of [] \<Rightarrow> None | m # _ \<Rightarrow> Some m)"

definition extract_scadenza_from_df ::
  "(string \<Rightarrow> error + datetime) \<Rightarrow> frame \<Rightarrow> error + frame \<times> log" where
  "extract_scadenza_from_df parse df_patients =
     (let nb_patient_before = int (length (rows df_patients));
          df0 = set_column ''scad'' (\<lambda>r. r\<lparr>scad := None\<rparr>) df_patients
      in if \<not> has_column df0 ''Note'' then Inl (KeyError ''Note'')
         else
           let scad0 = dropna (series Note df0);
               scad1 = map (\<lambda>(i, s). (i, findall SCADENZA_REGEX False s)) scad0;
               firsts = dropna (map (\<lambda>(i, ms). (i, str0 ms)) scad1)
           in case apply_parse parse firsts of
                Inl e \<Rightarrow> Inl e
              | Inr parsed \<Rightarrow>
                  let df1 = set_column ''scad'' (\<lambda>r. r\<lparr>scad := map_of parsed (idx r)\<rparr>) df0;
                      nb_patient_after = int (length (rows df1))
                  in Inr (df1,
                          if nb_patient_before \<noteq> nb_patient_after
                          then [(ERROR, Lost_because_of_Scadenza (nb_patient_before - nb_patient_after))]
                          else []))"

section \<open>The driver\<close>


definition QUAS :: string where
  "QUAS = ''QUAS''"

definition QUAS_PENSIONATI :: string where
  "QUAS_PENSIONATI = ''QUAS-PENSIONATI''"




section \<open>Notions used in the statements\<close>





text \<open>The rule for the second PNR, in the words of the specification.\<close>

definition second_pnr_rule :: "string list \<Rightarrow> string list \<Rightarrow> row \<Rightarrow> bool" where
  "second_pnr_rule osr srt r =
     ((Istituto r = 1 \<and> Esame r \<in> set osr) \<or> (Istituto r = 8 \<and> Esame r \<in> set srt))"

section \<open>Calendar dates and example data\<close>

text \<open>Days from 1970-01-01 to a date of the proleptic Gregorian calendar, and the
  timestamp in nanoseconds of a full hour of a day.\<close>

definition days_from_civil :: "int \<Rightarrow> int \<Rightarrow> int \<Rightarrow> int" where
  "days_from_civil y m d =
     (let y' = (if m \<le> 2 then y - 1 else y);
          era = y' div 400;
          yoe = y' - era * 400;
          doy = (153 * (if m > 2 then m - 3 else m + 9) + 2) div 5 + d - 1;
          doe = yoe * 365 + yoe div 4 - yoe div 100 + doy
      in era * 146097 + doe - 719468)"

definition timestamp :: "int \<Rightarrow> int \<Rightarrow> int \<Rightarrow> int \<Rightarrow> int" where
  "timestamp y m d h = (days_from_civil y m d * 24 + h) * 3600 * 1000000000"

text \<open>A row as the sheet delivers it: the input cells, no derived cell yet.\<close>

definition patient ::
  "nat \<Rightarrow> int option \<Rightarrow> string \<Rightarrow> int \<Rightarrow> string \<Rightarrow> string option \<Rightarrow> row" where
  "patient i birth insurance institute exam notes =
     \<lparr>idx = i, Data_Di_Nascita = birth, Descrizione_BusinessPartner = insurance,
      Istituto = institute, Esame = exam, Note = notes, age = None, PNR = None,
      second_pnr = False, Codice_Esame_SAP = None, ID_prestazioni = None,
      type_prestazioni = None, scad = None\<rparr>"

definition input_columns :: "label list" where
  "input_columns = map StrLabel
     [''Data_Di_Nascita'', ''Descrizione_BusinessPartner'', ''Istituto'', ''Esame'', ''Note'']"

text \<open>Example frames.\<close>

definition df_notes :: frame where
  "df_notes =
     \<lparr>columns = input_columns,
      rows = [patient 0 (Some (timestamp 1980 1 1 0)) ''QUAS'' 1 ''E1''
                (Some ''ref XX123456 and BB654321 done''),
              patient 1 (Some (timestamp 1975 6 30 0)) ''QUAS'' 2 ''E1'' None,
              patient 2 (Some (timestamp 1990 2 28 0)) ''QUAS-PENSIONATI'' 8 ''E2''
                (Some ''scad 05/06/2024 other text'')]\<rparr>"

text \<open>The input cells of a row, and a row's identity: its index label with its input cells.\<close>

definition input_cells :: "row \<Rightarrow> int option \<times> string \<times> int \<times> string \<times> string option" where
  "input_cells r =
     (Data_Di_Nascita r, Descrizione_BusinessPartner r, Istituto r, Esame r, Note r)"

definition ident :: "row \<Rightarrow> nat \<times> int option \<times> string \<times> int \<times> string \<times> string option" where
  "ident r = (idx r, input_cells r)"

text \<open>The rows of the category table, after \<open>drop_duplicates\<close> and restricted to the two
  columns of the join, that carry the exam code of a record.\<close>

definition cat_matches :: "cat_row list \<Rightarrow> row \<Rightarrow> (string \<times> int) list" where
  "cat_matches sheet r =
     filter (\<lambda>(k, v). k = Esame r)
       (map (\<lambda>c. (cat_Codice_Esame_SAP c, cat_ID_prestazioni c)) (drop_duplicates sheet))"


text \<open>The assignment of \<open>type_prestazioni\<close> and the right side of the join, named for the
  proofs.\<close>

definition map_type_prestazioni :: "row \<Rightarrow> row" where
  "map_type_prestazioni r =
     r\<lparr>type_prestazioni := (case ID_prestazioni r of None \<Rightarrow> None | Some i \<Rightarrow> DICT_PRESTAZIONNE i)\<rparr>"

definition join_right_of :: "cat_row list \<Rightarrow> (string \<times> int) list" where
  "join_right_of sheet =
     map (\<lambda>c. (cat_Codice_Esame_SAP c, cat_ID_prestazioni c)) (drop_duplicates sheet)"

text \<open>Example category tables and frames.\<close>

definition cat_sheet_dup :: "cat_row list" where
  "cat_sheet_dup =
     [\<lparr>cat_Codice_Esame_SAP = ''E1'', cat_ID_prestazioni = 2, cat_other_columns = [''visita'']\<rparr>,
      \<lparr>cat_Codice_Esame_SAP = ''E1'', cat_ID_prestazioni = 3, cat_other_columns = [''fisio'']\<rparr>,
      \<lparr>cat_Codice_Esame_SAP = ''E1'', cat_ID_prestazioni = 3, cat_other_columns = [''fisio'']\<rparr>]"

definition cat_sheet :: "cat_row list" where
  "cat_sheet =
     [\<lparr>cat_Codice_Esame_SAP = ''E1'', cat_ID_prestazioni = 3, cat_other_columns = [''fisio'']\<rparr>,
      \<lparr>cat_Codice_Esame_SAP = ''E9'', cat_ID_prestazioni = 1, cat_other_columns = [''altro'']\<rparr>,
      \<lparr>cat_Codice_Esame_SAP = ''E1'', cat_ID_prestazioni = 3, cat_other_columns = [''fisio'']\<rparr>]"



text \<open>Date parsers for the examples: \<open>parse_dmy\<close> reads day, month and year in this order
  and rejects what is no calendar date; \<open>parse_const\<close> accepts every string.\<close>

definition digit_value :: "char \<Rightarrow> int" where
  "digit_value c = int (of_char c) - 48"

definition to_int :: "string \<Rightarrow> int" where
  "to_int s = foldl (\<lambda>n c. 10 * n + digit_value c) 0 s"

fun fields :: "string \<Rightarrow> string \<Rightarrow> string list" where
  "fields cur [] = [rev cur]"
| "fields cur (c # cs) = (if is_digit c then fields (c # cur) cs else rev cur # fields [] cs)"

definition days_in_month :: "int \<Rightarrow> int \<Rightarrow> int" where
  "days_in_month y m =
     (if m = 2 then (if y mod 4 = 0 \<and> (y mod 100 \<noteq> 0 \<or> y mod 400 = 0) then 29 else 28)
      else if m \<in> {4, 6, 9, 11} then 30 else 31)"

definition parse_dmy :: "string \<Rightarrow> error + datetime" where
  "parse_dmy s =
     (case map to_int (fields [] s) of
        [d, m, y] \<Rightarrow>
          (let y' = (if y < 100 then 2000 + y else y)
           in if 1 \<le> m \<and> m \<le> 12 \<and> 1 \<le> d \<and> d \<le> days_in_month y' m
              then Inr (Datetime y' m d) else Inl (ParserError s))
      | _ \<Rightarrow> Inl (ParserError s))"




definition df_bad_date :: frame where
  "df_bad_date =
     \<lparr>columns = input_columns,
      rows = [patient 0 (Some (timestamp 1980 1 1 0)) ''QUAS'' 1 ''E1'' (Some ''scad 99/99/2024'')]\<rparr>"

section \<open>Verification\<close>

subsection \<open>Calendar\<close>

lemma days_from_civil_examples:
  "days_from_civil 1970 1 1 = 0"
  "days_from_civil 2000 3 1 = 11017"
  "days_from_civil 2023 3 1 - days_from_civil 2005 3 1 = 6574"
  "days_from_civil 2024 11 4 - days_from_civil 2006 11 5 = 6574"
  by (simp_all add: days_from_civil_def)

subsection \<open>The age filter\<close>

text \<open>
  Claim C2 (the code departs from it). The claim: the age is the number of whole years
  from the birth date to the current date, so that a patient born exactly 18 years ago is
  kept and one born 18 years less one day ago is removed. The code divides the elapsed
  time by a year of 365.2425 days. A patient born on 2005-03-01 is removed on
  2023-03-01 at 00:00, the 18th birthday, since only 6574 days have passed; a patient born
  on 2006-11-05 is kept on 2024-11-04 at 10:00, the day before the 18th birthday.
\<close>

theorem filter_minor_from_df_at_18th_birthday:
  "filter_minor_from_df (timestamp 2023 3 1 0)
     \<lparr>columns = input_columns,
      rows = [patient 0 (Some (timestamp 2005 3 1 0)) ''QUAS'' 1 ''E1'' None]\<rparr>
   = Inr (\<lparr>columns = input_columns @ [StrLabel ''age''], rows = []\<rparr>,
          [(DEBUG, Minors_dropped 1)])
   \<and> filter_minor_from_df (timestamp 2024 11 4 10)
     \<lparr>columns = input_columns,
      rows = [patient 0 (Some (timestamp 2006 11 5 0)) ''QUAS'' 1 ''E1'' None]\<rparr>
   = Inr (\<lparr>columns = input_columns @ [StrLabel ''age''],
           rows = [(patient 0 (Some (timestamp 2006 11 5 0)) ''QUAS'' 1 ''E1'' None)
                     \<lparr>age := Some 18\<rparr>]\<rparr>,
          [(DEBUG, No_minor)])"
  by (simp add: filter_minor_from_df_def has_column_def input_columns_def set_column_def
        patient_def is_adult_def years_m8_def NS_PER_YEAR_def timestamp_def
        days_from_civil_def Let_def)

subsection \<open>The insurance filter\<close>

text \<open>
  Claim C3 (the code departs from it). The claim: when the insurance filter removes a
  record, a warning is logged. The code compares the number of rows of its input with
  the number of rows of its input again, so the warning is never logged: the record with
  insurance \<open>quas\<close> is removed for the accepted insurances \<open>QUAS\<close> and \<open>QUAS-PENSIONATI\<close>
  and the log stays empty.
\<close>

theorem filter_accepted_insurances_removes_silently:
  "filter_accepted_insurances
     \<lparr>columns = input_columns,
      rows = [patient 0 (Some (timestamp 1980 1 1 0)) ''quas'' 1 ''E1'' None]\<rparr>
     [QUAS, QUAS_PENSIONATI]
   = Inr (\<lparr>columns = input_columns, rows = []\<rparr>, [])"
  by (simp add: filter_accepted_insurances_def has_column_def input_columns_def patient_def
        QUAS_def QUAS_PENSIONATI_def Let_def)

subsection \<open>Frames and series\<close>





lemma has_column_set_column:
  "has_column df c \<Longrightarrow> has_column (set_column c' f df) c"
  by (auto simp: has_column_def set_column_def)

lemma rows_set_column: "rows (set_column c f df) = map f (rows df)"
  by (simp add: set_column_def)

lemma columns_set_column:
  "columns (set_column c f df) = (if has_column df c then columns df else columns df @ [StrLabel c])"
  by (simp add: set_column_def)

lemma idx_mem:
  assumes "distinct (map idx rs)" "r \<in> set rs"
  shows "idx r \<in> set (map idx (filter P rs)) \<longleftrightarrow> P r"
proof -
  have "inj_on idx (set rs)" using assms(1) by (simp add: distinct_map)
  then show ?thesis using assms(2) by (auto simp: inj_on_def)
qed

lemma loc_rows:
  assumes d: "distinct (map idx rs)" and h: "\<And>r. idx (h r) = idx r"
  shows "map (\<lambda>r. if idx r \<in> set (map idx (filter P rs)) then f r else r) (map h rs)
         = map (\<lambda>r. if P r then f (h r) else h r) rs"
proof -
  have "(if idx (h r) \<in> set (map idx (filter P rs)) then f (h r) else h r)
        = (if P r then f (h r) else h r)" if "r \<in> set rs" for r
    using idx_mem [OF d that, of P] by (simp only: h)
  then show ?thesis by (simp add: comp_def)
qed

lemma rows_loc_set_second_pnr:
  "rows (loc_set_second_pnr ls df)
   = map (\<lambda>r. if idx r \<in> set ls then r\<lparr>second_pnr := True\<rparr> else r) (rows df)"
  by (simp add: loc_set_second_pnr_def)

subsection \<open>The matcher on the two patterns\<close>
















subsection \<open>PNR extraction\<close>




subsection \<open>The second-PNR flag\<close>

text \<open>
  Claim C5. On a frame with the columns \<open>Istituto\<close> and \<open>Esame\<close> and distinct index labels,
  \<open>add_check_2nd_pnr\<close> returns the same rows with \<open>second_pnr\<close> true exactly for the rows
  with institute 1 and an exam code in the OSR list or institute 8 and an exam code in the
  SRT list, false for every other row, and logs the number of flagged rows.
\<close>

theorem add_check_2nd_pnr_flag:
  assumes c1: "has_column df ''Istituto''" and c2: "has_column df ''Esame''"
    and d: "distinct (map idx (rows df))"
  shows "\<exists>df'. add_check_2nd_pnr df osr srt
                 = Inr (df', [(DEBUG, Need_second_pnr (length (filter (second_pnr_rule osr srt) (rows df))))]) \<and>
           rows df' = map (\<lambda>r. r\<lparr>second_pnr := second_pnr_rule osr srt r\<rparr>) (rows df)"
proof -
  let ?h0 = "\<lambda>r. r\<lparr>second_pnr := False\<rparr>"
  let ?t = "\<lambda>r. r\<lparr>second_pnr := True\<rparr>"
  let ?P1 = "\<lambda>r. Istituto r = 1 \<and> Esame r \<in> set osr"
  let ?P2 = "\<lambda>r. Istituto r = 8 \<and> Esame r \<in> set srt"
  let ?h1 = "\<lambda>r. if ?P1 r then ?t (?h0 r) else ?h0 r"
  define df0 where "df0 = set_column ''second_pnr'' ?h0 df"
  define l1 where
    "l1 = map idx (filter (\<lambda>r. Esame r \<in> set osr) (filter (\<lambda>r. Istituto r = 1) (rows df0)))"
  define l2 where
    "l2 = map idx (filter (\<lambda>r. Esame r \<in> set srt) (filter (\<lambda>r. Istituto r = 8) (rows df0)))"
  define df2 where "df2 = loc_set_second_pnr l2 (loc_set_second_pnr l1 df0)"
  have r0: "rows df0 = map ?h0 (rows df)"
    by (simp add: df0_def rows_set_column)
  have l1': "l1 = map idx (filter ?P1 (rows df))"
    by (simp add: l1_def r0 filter_map comp_def conj_commute)
  have l2': "l2 = map idx (filter ?P2 (rows df))"
    by (simp add: l2_def r0 filter_map comp_def conj_commute)
  have "rows df2 = map (\<lambda>r. if idx r \<in> set l2 then ?t r else r)
                     (map (\<lambda>r. if idx r \<in> set l1 then ?t r else r) (map ?h0 (rows df)))"
    by (simp only: df2_def rows_loc_set_second_pnr r0)
  also have "map (\<lambda>r. if idx r \<in> set l1 then ?t r else r) (map ?h0 (rows df)) = map ?h1 (rows df)"
    unfolding l1' by (rule loc_rows [OF d]) simp
  also have "map (\<lambda>r. if idx r \<in> set l2 then ?t r else r) (map ?h1 (rows df))
             = map (\<lambda>r. if ?P2 r then ?t (?h1 r) else ?h1 r) (rows df)"
    unfolding l2' by (rule loc_rows [OF d]) simp
  also have "\<dots> = map (\<lambda>r. r\<lparr>second_pnr := second_pnr_rule osr srt r\<rparr>) (rows df)"
    by (rule map_cong) (simp_all add: second_pnr_rule_def)
  finally have rows2: "rows df2 = map (\<lambda>r. r\<lparr>second_pnr := second_pnr_rule osr srt r\<rparr>) (rows df)" .
  have n: "length (filter second_pnr (rows df2)) = length (filter (second_pnr_rule osr srt) (rows df))"
    by (simp add: rows2 filter_map comp_def)
  have "add_check_2nd_pnr df osr srt
        = Inr (df2, [(DEBUG, Need_second_pnr (length (filter second_pnr (rows df2))))])"
    using c1 c2
    by (simp add: add_check_2nd_pnr_def Let_def has_column_set_column df2_def l1_def l2_def df0_def)
  with rows2 n show ?thesis by simp
qed

theorem add_check_2nd_pnr_flag_witness:
  "has_column df_notes ''Istituto'' \<and> has_column df_notes ''Esame'' \<and>
   distinct (map idx (rows df_notes)) \<and>
   (\<exists>df'. add_check_2nd_pnr df_notes [''E1''] [''E2''] = Inr (df', [(DEBUG, Need_second_pnr 2)]) \<and>
      map second_pnr (rows df') = [True, False, True])"
proof -
  have c1: "has_column df_notes ''Istituto''"
    by (simp add: has_column_def df_notes_def input_columns_def)
  have c2: "has_column df_notes ''Esame''"
    by (simp add: has_column_def df_notes_def input_columns_def)
  have d: "distinct (map idx (rows df_notes))"
    by (simp add: df_notes_def patient_def)
  obtain df' where
    e: "add_check_2nd_pnr df_notes [''E1''] [''E2'']
        = Inr (df', [(DEBUG, Need_second_pnr
                 (length (filter (second_pnr_rule [''E1''] [''E2'']) (rows df_notes))))])"
    and r: "rows df' = map (\<lambda>r. r\<lparr>second_pnr := second_pnr_rule [''E1''] [''E2''] r\<rparr>)
                         (rows df_notes)"
    using add_check_2nd_pnr_flag [OF c1 c2 d, of "[''E1'']" "[''E2'']"] by blast
  have n: "length (filter (second_pnr_rule [''E1''] [''E2'']) (rows df_notes)) = 2"
    by (simp add: second_pnr_rule_def df_notes_def patient_def)
  have m: "map second_pnr (rows df') = [True, False, True]"
    unfolding r by (simp add: second_pnr_rule_def df_notes_def patient_def)
  show ?thesis using c1 c2 d e n m by simp
qed

subsection \<open>The shape of the stages\<close>

lemma length_reset_index: "length (reset_index rs) = length rs"
  by (simp add: reset_index_def)

lemma map_reset_index:
  assumes "\<And>r i. f (r\<lparr>idx := i\<rparr>) = f r"
  shows "map f (reset_index rs) = map f rs"
proof -
  have "map f (reset_index rs) = map (f \<circ> snd) (zip [0..<length rs] rs)"
    by (simp add: reset_index_def assms case_prod_unfold comp_def)
  also have "\<dots> = map f (map snd (zip [0..<length rs] rs))"
    by (simp only: map_map)
  also have "map snd (zip [0..<length rs] rs) = rs"
    by (simp add: map_snd_zip)
  finally show ?thesis .
qed


lemma has_column_set_column_iff:
  "has_column (set_column c' f df) c \<longleftrightarrow> has_column df c \<or> c = c'"
  by (auto simp: has_column_def set_column_def)

lemma filter_minor_from_df_rows:
  assumes "filter_minor_from_df now df = Inr (df', l)"
  shows "rows df' = filter is_adult (map (\<lambda>r. r\<lparr>age := years_m8 now (Data_Di_Nascita r)\<rparr>) (rows df))"
  using assms
  by (auto simp: filter_minor_from_df_def Let_def rows_set_column split: if_splits)

lemma filter_accepted_insurances_rows:
  assumes "filter_accepted_insurances df acc = Inr (df', l)"
  shows "rows df' = filter (\<lambda>r. Descrizione_BusinessPartner r \<in> set acc) (rows df)"
  using assms
  by (auto simp: filter_accepted_insurances_def Let_def split: if_splits)

lemma add_pnr_to_df_rows:
  assumes "add_pnr_to_df df = Inr (df', l)"
  shows "l = [] \<and> (\<exists>f. rows df' = map (\<lambda>r. r\<lparr>PNR := f r\<rparr>) (rows df))"
proof -
  let ?found = "map (\<lambda>(i, s). (i, findall PNR_REGEX True s)) (dropna (series Note df))"
  let ?f = "\<lambda>r. (case map_of ?found (idx r) of None \<Rightarrow> Some [] | Some ms \<Rightarrow> Some ms)"
  have "(if PNR (r\<lparr>PNR := map_of ?found (idx r)\<rparr>) = None
         then r\<lparr>PNR := map_of ?found (idx r)\<rparr>\<lparr>PNR := Some []\<rparr>
         else r\<lparr>PNR := map_of ?found (idx r)\<rparr>) = r\<lparr>PNR := ?f r\<rparr>" for r
    by (cases "map_of ?found (idx r)") simp_all
  then have "rows df' = map (\<lambda>r. r\<lparr>PNR := ?f r\<rparr>) (rows df)" and "l = []"
    using assms
    by (auto simp: add_pnr_to_df_def Let_def rows_set_column comp_def split: if_splits)
  then show ?thesis by (intro conjI exI [of _ ?f])
qed

lemma add_check_2nd_pnr_unfold:
  "add_check_2nd_pnr df osr srt =
     (let df0 = set_column ''second_pnr'' (\<lambda>r. r\<lparr>second_pnr := False\<rparr>) df;
          l1 = map idx (filter (\<lambda>r. Esame r \<in> set osr) (filter (\<lambda>r. Istituto r = 1) (rows df0)));
          l2 = map idx (filter (\<lambda>r. Esame r \<in> set srt) (filter (\<lambda>r. Istituto r = 8) (rows df0)));
          df2 = loc_set_second_pnr l2 (loc_set_second_pnr l1 df0)
      in if \<not> has_column df0 ''Istituto'' then Inl (KeyError ''Istituto'')
         else if \<not> has_column df0 ''Esame'' then Inl (KeyError ''Esame'')
         else Inr (df2, [(DEBUG, Need_second_pnr (length (filter second_pnr (rows df2))))]))"
  unfolding add_check_2nd_pnr_def Let_def by (rule refl)

lemma add_check_2nd_pnr_rows:
  assumes "add_check_2nd_pnr df osr srt = Inr (df', l)"
  shows "\<exists>f. rows df' = map (\<lambda>r. r\<lparr>second_pnr := f r\<rparr>) (rows df)"
proof -
  define df0 where "df0 = set_column ''second_pnr'' (\<lambda>r. r\<lparr>second_pnr := False\<rparr>) df"
  define l1 where
    "l1 = map idx (filter (\<lambda>r. Esame r \<in> set osr) (filter (\<lambda>r. Istituto r = 1) (rows df0)))"
  define l2 where
    "l2 = map idx (filter (\<lambda>r. Esame r \<in> set srt) (filter (\<lambda>r. Istituto r = 8) (rows df0)))"
  define df2 where "df2 = loc_set_second_pnr l2 (loc_set_second_pnr l1 df0)"
  have e: "add_check_2nd_pnr df osr srt =
     (if \<not> has_column df0 ''Istituto'' then Inl (KeyError ''Istituto'')
      else if \<not> has_column df0 ''Esame'' then Inl (KeyError ''Esame'')
      else Inr (df2, [(DEBUG, Need_second_pnr (length (filter second_pnr (rows df2))))]))"
    unfolding add_check_2nd_pnr_unfold df0_def l1_def l2_def df2_def Let_def by (rule refl)
  have "df' = df2"
    using assms unfolding e
    by (cases "has_column df0 ''Istituto''"; cases "has_column df0 ''Esame''") simp_all
  then have "rows df' = map (\<lambda>r. if idx r \<in> set l2 then r\<lparr>second_pnr := True\<rparr> else r)
                     (map (\<lambda>r. if idx r \<in> set l1 then r\<lparr>second_pnr := True\<rparr> else r)
                        (map (\<lambda>r. r\<lparr>second_pnr := False\<rparr>) (rows df)))"
    by (simp only: df2_def rows_loc_set_second_pnr df0_def rows_set_column)
  also have "\<dots> = map (\<lambda>r. r\<lparr>second_pnr := idx r \<in> set l1 \<or> idx r \<in> set l2\<rparr>) (rows df)"
  proof -
    have h: "(if idx (if idx (r\<lparr>second_pnr := False\<rparr>) \<in> set l1
                   then r\<lparr>second_pnr := False\<rparr>\<lparr>second_pnr := True\<rparr>
                   else r\<lparr>second_pnr := False\<rparr>) \<in> set l2
           then (if idx (r\<lparr>second_pnr := False\<rparr>) \<in> set l1
                 then r\<lparr>second_pnr := False\<rparr>\<lparr>second_pnr := True\<rparr>
                 else r\<lparr>second_pnr := False\<rparr>)\<lparr>second_pnr := True\<rparr>
           else (if idx (r\<lparr>second_pnr := False\<rparr>) \<in> set l1
                 then r\<lparr>second_pnr := False\<rparr>\<lparr>second_pnr := True\<rparr>
                 else r\<lparr>second_pnr := False\<rparr>))
          = r\<lparr>second_pnr := idx r \<in> set l1 \<or> idx r \<in> set l2\<rparr>" for r
      by (cases "idx r \<in> set l1"; cases "idx r \<in> set l2") simp_all
    show ?thesis by (simp only: map_map comp_def h)
  qed
  finally show ?thesis by (intro exI [of _ "\<lambda>r. idx r \<in> set l1 \<or> idx r \<in> set l2"])
qed

lemma apply_parse_keys:
  "apply_parse parse ser = Inr ds \<Longrightarrow> map fst ds = map fst ser"
proof (induction ser arbitrary: ds)
  case Nil
  then show ?case by simp
next
  case (Cons a ser)
  obtain i s where a: "a = (i, s)" by (cases a)
  show ?case using Cons unfolding a by (auto split: sum.splits)
qed

lemma extract_scadenza_from_df_rows:
  assumes "extract_scadenza_from_df parse df = Inr (df', l)"
  shows "l = [] \<and> (\<exists>f. rows df' = map (\<lambda>r. r\<lparr>scad := f r\<rparr>) (rows df))"
proof -
  let ?df0 = "set_column ''scad'' (\<lambda>r. r\<lparr>scad := None\<rparr>) df"
  let ?firsts = "dropna (map (\<lambda>(i, ms). (i, str0 ms))
                   (map (\<lambda>(i, s). (i, findall SCADENZA_REGEX False s)) (dropna (series Note ?df0))))"
  show ?thesis
  proof (cases "apply_parse parse ?firsts")
    case (Inl e)
    then show ?thesis using assms
      by (simp add: extract_scadenza_from_df_def Let_def split: if_splits)
  next
    case (Inr parsed)
    then have "rows df' = map (\<lambda>r. r\<lparr>scad := map_of parsed (idx r)\<rparr>) (rows df)" and "l = []"
      using assms
      by (auto simp: extract_scadenza_from_df_def Let_def rows_set_column comp_def
            split: if_splits)
    then show ?thesis by (intro conjI exI [of _ "\<lambda>r. map_of parsed (idx r)"])
  qed
qed

subsection \<open>Category mapping\<close>

lemma merge_row_cells:
  "map input_cells (merge_row jr r)
   = replicate (max 1 (length (filter (\<lambda>(k, v). k = Esame r) jr))) (input_cells r)"
proof (cases "filter (\<lambda>(k, v). k = Esame r) jr")
  case Nil
  then show ?thesis by (simp add: merge_row_def input_cells_def)
next
  case (Cons m ms)
  have "map input_cells (map (\<lambda>(k, v). r\<lparr>Codice_Esame_SAP := Some k, ID_prestazioni := Some v\<rparr>) xs)
        = replicate (length xs) (input_cells r)" for xs
    by (induction xs) (auto simp: input_cells_def)
  from this [of "m # ms"] show ?thesis using Cons by (simp add: merge_row_def)
qed

lemma add_cat_code_Inr:
  assumes "has_column df ''Esame''"
  shows "add_cat_code df sheet =
           Inr (set_column ''type_prestazioni'' map_type_prestazioni (merge_left df (join_right_of sheet)),
                if length (rows df) \<noteq> length (concat (map (merge_row (join_right_of sheet)) (rows df)))
                then [(ERROR, Lost_because_of_ESAME
                         (int (length (rows df))
                          - int (length (concat (map (merge_row (join_right_of sheet)) (rows df))))))]
                else [])"
  using assms
  by (simp add: add_cat_code_def Let_def join_right_of_def map_type_prestazioni_def [abs_def]
        rows_set_column merge_left_def length_reset_index)

lemma rows_add_cat_code:
  "rows (set_column ''type_prestazioni'' map_type_prestazioni (merge_left df jr))
   = map map_type_prestazioni (reset_index (concat (map (merge_row jr) (rows df))))"
  by (simp add: rows_set_column merge_left_def)

lemma cells_add_cat_code:
  "map input_cells (map map_type_prestazioni (reset_index (concat (map (merge_row jr) (rows df)))))
   = concat (map (\<lambda>r. replicate (max 1 (length (filter (\<lambda>(k, v). k = Esame r) jr))) (input_cells r))
       (rows df))"
proof -
  have "input_cells (map_type_prestazioni r) = input_cells r" for r
    by (simp add: input_cells_def map_type_prestazioni_def)
  then have t: "input_cells \<circ> map_type_prestazioni = input_cells"
    by (simp add: fun_eq_iff)
  have "map input_cells (map map_type_prestazioni (reset_index (concat (map (merge_row jr) (rows df)))))
        = map input_cells (reset_index (concat (map (merge_row jr) (rows df))))"
    by (simp only: map_map t)
  also have "\<dots> = map input_cells (concat (map (merge_row jr) (rows df)))"
    by (rule map_reset_index) (simp add: input_cells_def)
  also have "\<dots> = concat (map (\<lambda>r. replicate (max 1 (length (filter (\<lambda>(k, v). k = Esame r) jr)))
                                   (input_cells r)) (rows df))"
    by (induction "rows df") (simp_all add: merge_row_cells map_concat comp_def)
  finally show ?thesis .
qed



lemma drop_duplicates_examples:
  "drop_duplicates cat_sheet_dup = take 2 cat_sheet_dup"
  "drop_duplicates cat_sheet = take 2 cat_sheet"
  by code_simp+





subsection \<open>Success and failure of the stages\<close>

lemma filter_minor_from_df_ok:
  assumes "has_column df ''Data_Di_Nascita''"
  shows "\<exists>df' l. filter_minor_from_df now df = Inr (df', l) \<and>
           (\<forall>c. has_column df' c \<longleftrightarrow> has_column df c \<or> c = ''age'')"
  using assms
  by (simp add: filter_minor_from_df_def Let_def has_column_def set_column_def) auto


lemma filter_accepted_insurances_ok:
  assumes "has_column df ''Descrizione_BusinessPartner''"
  shows "\<exists>df' l. filter_accepted_insurances df acc = Inr (df', l) \<and>
           (\<forall>c. has_column df' c \<longleftrightarrow> has_column df c)"
  using assms
  by (simp add: filter_accepted_insurances_def Let_def has_column_def)


lemma add_pnr_to_df_ok:
  assumes "has_column df ''Note''"
  shows "\<exists>df' l. add_pnr_to_df df = Inr (df', l) \<and>
           (\<forall>c. has_column df' c \<longleftrightarrow> has_column df c \<or> c = ''PNR'')"
  using assms
  by (simp add: add_pnr_to_df_def Let_def has_column_def set_column_def) auto


lemma add_check_2nd_pnr_ok:
  assumes "has_column df ''Istituto''" "has_column df ''Esame''"
  shows "\<exists>df' l. add_check_2nd_pnr df osr srt = Inr (df', l) \<and>
           (\<forall>c. has_column df' c \<longleftrightarrow> has_column df c \<or> c = ''second_pnr'')"
  using assms
  by (simp add: add_check_2nd_pnr_unfold Let_def has_column_set_column_iff)
     (auto simp: has_column_def loc_set_second_pnr_def set_column_def)


lemma add_cat_code_ok:
  assumes "has_column df ''Esame''"
  shows "\<exists>df' l. add_cat_code df sheet = Inr (df', l) \<and>
           (\<forall>c. has_column df' c \<longleftrightarrow>
                  has_column df c \<or> c \<in> {''Codice Esame SAP'', ''ID prestazioni'', ''type_prestazioni''})"
  unfolding add_cat_code_Inr [OF assms]
  by (simp add: has_column_set_column_iff) (auto simp: has_column_def merge_left_def)

lemma add_cat_code_fail:
  "\<not> has_column df ''Esame'' \<Longrightarrow> add_cat_code df sheet = Inl (KeyError ''Esame'')"
  by (simp add: add_cat_code_def Let_def)

lemma extract_scadenza_from_df_fail:
  "\<not> has_column df ''Note'' \<Longrightarrow> extract_scadenza_from_df parse df = Inl (KeyError ''Note'')"
  by (simp add: extract_scadenza_from_df_def Let_def has_column_set_column_iff)



subsection \<open>The driver\<close>





subsection \<open>Examples\<close>

lemma parse_dmy_examples:
  "parse_dmy ''05/06/2024'' = Inr (Datetime 2024 6 5)"
  "parse_dmy ''99/99/2024'' = Inl (ParserError ''99/99/2024'')"
  by code_simp+

lemma df_notes_columns:
  "has_column df_notes ''Data_Di_Nascita''" "has_column df_notes ''Descrizione_BusinessPartner''"
  "has_column df_notes ''Note''" "has_column df_notes ''Istituto''" "has_column df_notes ''Esame''"
  by code_simp+




subsection \<open>Order of the records\<close>

lemma ident_update:
  "ident (r\<lparr>age := a\<rparr>) = ident r"
  "ident (r\<lparr>PNR := b\<rparr>) = ident r"
  "ident (r\<lparr>second_pnr := c\<rparr>) = ident r"
  "ident (r\<lparr>scad := d\<rparr>) = ident r"
  by (simp_all add: ident_def input_cells_def)

lemma add_cat_code_Inr_has_Esame:
  "add_cat_code df sheet = Inr x \<Longrightarrow> has_column df ''Esame''"
  by (cases "has_column df ''Esame''") (simp_all add: add_cat_code_fail)

text \<open>
  Claim C9. No stage reorders the batch. The two filters return a subsequence of their
  input rows, so they only remove rows and neither add nor repeat one. PNR extraction, the
  second-PNR flag and expiration extraction return the input rows, in order, with one more
  cell each. Category mapping returns the input records in input order, each in one block
  of rows.
\<close>

theorem stages_keep_order:
  "(filter_minor_from_df now df = Inr (df1, l1) \<longrightarrow>
      subseq (map ident (rows df1)) (map ident (rows df))) \<and>
   (filter_accepted_insurances df acc = Inr (df2, l2) \<longrightarrow> subseq (rows df2) (rows df)) \<and>
   (add_pnr_to_df df = Inr (df3, l3) \<longrightarrow> map ident (rows df3) = map ident (rows df)) \<and>
   (add_check_2nd_pnr df osr srt = Inr (df4, l4) \<longrightarrow> map ident (rows df4) = map ident (rows df)) \<and>
   (add_cat_code df sheet = Inr (df5, l5) \<longrightarrow>
      map input_cells (rows df5)
        = concat (map (\<lambda>r. replicate (max 1 (length (cat_matches sheet r))) (input_cells r))
            (rows df))) \<and>
   (extract_scadenza_from_df parse df = Inr (df6, l6) \<longrightarrow>
      map ident (rows df6) = map ident (rows df))"
proof (intro conjI impI)
  assume "filter_minor_from_df now df = Inr (df1, l1)"
  then have "rows df1 = filter is_adult
               (map (\<lambda>r. r\<lparr>age := years_m8 now (Data_Di_Nascita r)\<rparr>) (rows df))"
    by (rule filter_minor_from_df_rows)
  then have "map ident (rows df1)
             = map ident (filter (\<lambda>r. is_adult (r\<lparr>age := years_m8 now (Data_Di_Nascita r)\<rparr>)) (rows df))"
    by (simp add: filter_map comp_def ident_update)
  then show "subseq (map ident (rows df1)) (map ident (rows df))"
    by (simp add: subseq_map)
next
  assume "filter_accepted_insurances df acc = Inr (df2, l2)"
  then have "rows df2 = filter (\<lambda>r. Descrizione_BusinessPartner r \<in> set acc) (rows df)"
    by (rule filter_accepted_insurances_rows)
  then show "subseq (rows df2) (rows df)" by simp
next
  assume "add_pnr_to_df df = Inr (df3, l3)"
  then obtain f where "rows df3 = map (\<lambda>r. r\<lparr>PNR := f r\<rparr>) (rows df)"
    using add_pnr_to_df_rows by blast
  then show "map ident (rows df3) = map ident (rows df)"
    by (simp add: comp_def ident_update)
next
  assume "add_check_2nd_pnr df osr srt = Inr (df4, l4)"
  then obtain f where "rows df4 = map (\<lambda>r. r\<lparr>second_pnr := f r\<rparr>) (rows df)"
    using add_check_2nd_pnr_rows by blast
  then show "map ident (rows df4) = map ident (rows df)"
    by (simp add: comp_def ident_update)
next
  assume e: "add_cat_code df sheet = Inr (df5, l5)"
  then have c: "has_column df ''Esame''" by (rule add_cat_code_Inr_has_Esame)
  have "df5 = set_column ''type_prestazioni'' map_type_prestazioni (merge_left df (join_right_of sheet))"
    using e unfolding add_cat_code_Inr [OF c] by simp
  then show "map input_cells (rows df5)
        = concat (map (\<lambda>r. replicate (max 1 (length (cat_matches sheet r))) (input_cells r))
            (rows df))"
    by (simp only: rows_add_cat_code cells_add_cat_code cat_matches_def join_right_of_def)
next
  assume "extract_scadenza_from_df parse df = Inr (df6, l6)"
  then obtain f where "rows df6 = map (\<lambda>r. r\<lparr>scad := f r\<rparr>) (rows df)"
    using extract_scadenza_from_df_rows by blast
  then show "map ident (rows df6) = map ident (rows df)"
    by (simp add: comp_def ident_update)
qed

theorem stages_keep_order_witness:
  "(\<exists>df1 l1. filter_minor_from_df (timestamp 2024 1 1 0) df_notes = Inr (df1, l1) \<and>
      subseq (map ident (rows df1)) (map ident (rows df_notes))) \<and>
   (\<exists>df2 l2. filter_accepted_insurances df_notes [QUAS] = Inr (df2, l2) \<and>
      subseq (rows df2) (rows df_notes)) \<and>
   (\<exists>df3 l3. add_pnr_to_df df_notes = Inr (df3, l3) \<and>
      map ident (rows df3) = map ident (rows df_notes)) \<and>
   (\<exists>df4 l4. add_check_2nd_pnr df_notes [''E1''] [''E2''] = Inr (df4, l4) \<and>
      map ident (rows df4) = map ident (rows df_notes)) \<and>
   (\<exists>df5 l5. add_cat_code df_notes cat_sheet_dup = Inr (df5, l5) \<and>
      map Esame (rows df5) = [''E1'', ''E1'', ''E1'', ''E1'', ''E2'']) \<and>
   (\<exists>df6 l6. extract_scadenza_from_df parse_dmy df_notes = Inr (df6, l6) \<and>
      map ident (rows df6) = map ident (rows df_notes))"
proof -
  obtain df1 l1 where e1: "filter_minor_from_df (timestamp 2024 1 1 0) df_notes = Inr (df1, l1)"
    using filter_minor_from_df_ok [OF df_notes_columns(1)] by blast
  obtain df2 l2 where e2: "filter_accepted_insurances df_notes [QUAS] = Inr (df2, l2)"
    using filter_accepted_insurances_ok [OF df_notes_columns(2)] by blast
  obtain df3 l3 where e3: "add_pnr_to_df df_notes = Inr (df3, l3)"
    using add_pnr_to_df_ok [OF df_notes_columns(3)] by blast
  obtain df4 l4 where e4: "add_check_2nd_pnr df_notes [''E1''] [''E2''] = Inr (df4, l4)"
    using add_check_2nd_pnr_ok [OF df_notes_columns(4,5)] by blast
  obtain df5 l5 where e5: "add_cat_code df_notes cat_sheet_dup = Inr (df5, l5)"
    using add_cat_code_ok [OF df_notes_columns(5)] by blast
  have "\<not> isl (extract_scadenza_from_df parse_dmy df_notes)"
    by code_simp
  then obtain df6 l6 where e6: "extract_scadenza_from_df parse_dmy df_notes = Inr (df6, l6)"
    by (cases "extract_scadenza_from_df parse_dmy df_notes") auto
  note k = stages_keep_order [of "timestamp 2024 1 1 0" df_notes df1 l1 "[QUAS]" df2 l2 df3 l3
      "[''E1'']" "[''E2'']" df4 l4 cat_sheet_dup df5 l5 parse_dmy df6 l6]
  have c5: "map input_cells (rows df5)
        = concat (map (\<lambda>r. replicate (max 1 (length (cat_matches cat_sheet_dup r))) (input_cells r))
            (rows df_notes))"
    using k e5 by blast
  have "map (\<lambda>c. fst (snd (snd (snd c)))) (map input_cells (rows df5))
        = [''E1'', ''E1'', ''E1'', ''E1'', ''E2'']"
    unfolding c5 by code_simp
  then have m5: "map Esame (rows df5) = [''E1'', ''E1'', ''E1'', ''E1'', ''E2'']"
    by (simp add: comp_def input_cells_def)
  have p1: "\<exists>df1 l1. filter_minor_from_df (timestamp 2024 1 1 0) df_notes = Inr (df1, l1) \<and>
      subseq (map ident (rows df1)) (map ident (rows df_notes))"
    using k e1 by blast
  have p2: "\<exists>df2 l2. filter_accepted_insurances df_notes [QUAS] = Inr (df2, l2) \<and>
      subseq (rows df2) (rows df_notes)"
    using k e2 by blast
  have p3: "\<exists>df3 l3. add_pnr_to_df df_notes = Inr (df3, l3) \<and>
      map ident (rows df3) = map ident (rows df_notes)"
    using k e3 by blast
  have p4: "\<exists>df4 l4. add_check_2nd_pnr df_notes [''E1''] [''E2''] = Inr (df4, l4) \<and>
      map ident (rows df4) = map ident (rows df_notes)"
    using k e4 by blast
  have p5: "\<exists>df5 l5. add_cat_code df_notes cat_sheet_dup = Inr (df5, l5) \<and>
      map Esame (rows df5) = [''E1'', ''E1'', ''E1'', ''E1'', ''E2'']"
    by (rule exI [of _ df5], rule exI [of _ l5], rule conjI [OF e5 m5])
  have p6: "\<exists>df6 l6. extract_scadenza_from_df parse_dmy df_notes = Inr (df6, l6) \<and>
      map ident (rows df6) = map ident (rows df_notes)"
    using k e6 by blast
  show ?thesis
    by (intro conjI) (rule p1, rule p2, rule p3, rule p4, rule p5, rule p6)
qed

subsection \<open>The record count of the enrichment stages\<close>




subsection \<open>The header\<close>



subsection \<open>Expiration extraction\<close>

lemma findall_SCADENZA_examples:
  "findall SCADENZA_REGEX False ''scad 99/99/2024'' = [''99/99/2024'']"
  "findall SCADENZA_REGEX False ''scad 05/06/2024 other text'' = [''05/06/2024'']"
  "findall SCADENZA_REGEX False ''ref XX123456 and BB654321 done'' = []"
  "findall SCADENZA_REGEX False ''05/06/202'' = [''05/06/202'']"
  by code_simp+

text \<open>
  Claim C10. Expiration extraction is not total on records with notes: the notes
  \<open>scad 99/99/2024\<close> hold the token \<open>99/99/2024\<close>, which matches \<open>SCADENZA_REGEX\<close> and is
  no calendar date; when the date parser raises on it, as \<open>dateutil\<close> does, the exception
  leaves \<open>extract_scadenza_from_df\<close> and the stage fails instead of giving a missing date.
\<close>

theorem extract_scadenza_from_df_raises:
  assumes "parse ''99/99/2024'' = Inl e"
  shows "findall SCADENZA_REGEX False ''scad 99/99/2024'' = [''99/99/2024''] \<and>
         extract_scadenza_from_df parse df_bad_date = Inl e"
proof -
  have c: "has_column (set_column ''scad'' (\<lambda>r. r\<lparr>scad := None\<rparr>) df_bad_date) ''Note''"
    by code_simp
  have "dropna (map (\<lambda>(i, ms). (i, str0 ms))
          (map (\<lambda>(i, s). (i, findall SCADENZA_REGEX False s))
             (dropna (series Note (set_column ''scad'' (\<lambda>r. r\<lparr>scad := None\<rparr>) df_bad_date)))))
        = [(0, ''99/99/2024'')]"
    by code_simp
  then have "extract_scadenza_from_df parse df_bad_date = Inl e"
    using c assms by (simp add: extract_scadenza_from_df_def Let_def)
  then show ?thesis by (simp add: findall_SCADENZA_examples)
qed

theorem extract_scadenza_from_df_raises_witness:
  "parse_dmy ''99/99/2024'' = Inl (ParserError ''99/99/2024'') \<and>
   findall SCADENZA_REGEX False ''scad 99/99/2024'' = [''99/99/2024''] \<and>
   extract_scadenza_from_df parse_dmy df_bad_date = Inl (ParserError ''99/99/2024'')"
  using extract_scadenza_from_df_raises [of parse_dmy "ParserError ''99/99/2024''"]
    parse_dmy_examples(2)
  by simp

end
